theory Spec2Isabelle
  imports Complex_Main
begin

section \<open>Configuration (app/config.py)\<close>

text \<open>
  The pydantic \<open>Settings\<close> class, field by field. Python floats that are only stored and
  passed on (never computed with) are kept as reals.
\<close>

record Settings =
  google_api_key :: string
  openai_api_key :: string
  neo4j_uri :: string
  neo4j_user :: string
  neo4j_password :: string
  gemini_model :: string
  gemini_temperature :: real
  gemini_max_tokens :: "int option"
  semaphore_limit :: int
  max_retries :: int
  retry_delay :: real
  app_host :: string
  app_port :: int
  debug :: bool
  use_parallel_runtime :: bool
  graphiti_telemetry_enabled :: bool

text \<open>
  Exceptions. Every exception the external services raise is an instance of Python's
  \<open>Exception\<close>, which is what the handlers of the source catch; \<open>RetryError\<close> is the
  exception of the retry library, wrapping the exception of the last attempt.
\<close>

datatype exn =
    Exception string
  | ValueError string
  | AttributeError string
  | ValidationError string
  | RetryError exn

text \<open>\<open>validate_required_keys\<close>: an empty (falsy) value is refused.\<close>

definition validate_required_keys :: "string \<Rightarrow> exn + string" where
  "validate_required_keys v =
     (if v = [] then Inl (ValueError ''Required API key or password is missing'') else Inr v)"

text \<open>
  \<open>Settings()\<close> with the three required values given by the environment and every other
  field at its default.
\<close>

definition Settings_defaults :: "string \<Rightarrow> string \<Rightarrow> string \<Rightarrow> Settings" where
  "Settings_defaults g k p =
     \<lparr> google_api_key = g, openai_api_key = k,
       neo4j_uri = ''bolt://neo4j:7687'', neo4j_user = ''neo4j'', neo4j_password = p,
       gemini_model = ''gemini-1.5-pro'', gemini_temperature = 1 / 10,
       gemini_max_tokens = None,
       semaphore_limit = 5, max_retries = 3, retry_delay = 1,
       app_host = ''0.0.0.0'', app_port = 8000, debug = False,
       use_parallel_runtime = False, graphiti_telemetry_enabled = False \<rparr>"

definition Settings_init :: "string \<Rightarrow> string \<Rightarrow> string \<Rightarrow> exn + Settings" where
  "Settings_init gkey okey pw =
     (case validate_required_keys gkey of
        Inl e \<Rightarrow> Inl e
      | Inr g \<Rightarrow>
          (case validate_required_keys okey of
             Inl e \<Rightarrow> Inl e
           | Inr k \<Rightarrow>
               (case validate_required_keys pw of
                  Inl e \<Rightarrow> Inl e
                | Inr p \<Rightarrow> Inr (Settings_defaults g k p))))"

section \<open>The external services\<close>

text \<open>
  The graph engine, the database behind it and the language model are outside the
  repository. The source reaches them through four calls: the \<open>Graphiti\<close> constructor,
  \<open>build_indices\<close>, \<open>search\<close> and \<open>generate_content_async\<close>. Their behaviour is a
  parameter of the model (a scripted mock): for the n-th call of each kind, with the
  arguments the source passes, the script says whether the call raises and what it returns.
\<close>

record LLMConfig =
  provider :: string
  model :: string
  temperature :: real
  max_tokens :: "int option"

text \<open>A \<open>Graphiti\<close> object is known by its identity only.\<close>

datatype Graphiti = GraphitiObj (obj_id: nat)

text \<open>
  Values a search result can serialise to, and a search result: its \<open>to_dict\<close> attribute
  (absent, raising, or returning a value) and its \<open>str()\<close> form.
\<close>

datatype pyval =
    PyNone
  | PyInt int
  | PyStr string
  | PyDict "(string \<times> pyval) list"

datatype result = Result (to_dict: "(exn + pyval) option") (str_form: string)

record Env =
  Graphiti_raises :: "string \<Rightarrow> string \<Rightarrow> string \<Rightarrow> LLMConfig \<Rightarrow> nat \<Rightarrow> exn option"
  build_indices_raises :: "Graphiti \<Rightarrow> nat \<Rightarrow> exn option"
  search_outcome :: "Graphiti \<Rightarrow> string \<Rightarrow> string option \<Rightarrow> int \<Rightarrow> nat \<Rightarrow> exn + result list"
  generate_content_outcome :: "string \<Rightarrow> string \<Rightarrow> nat \<Rightarrow> exn + bool"

text \<open>
  Log records keep the interpolated values of the f-strings as arguments.
\<close>

datatype log_entry =
    Info string
  | Error string exn
  | SearchCompleted nat string

text \<open>
  What the program does to the outside, and what a mock would count: the calls made so
  far, the handles whose \<open>build_indices\<close> completed, the seconds slept between retries
  (oldest first), the API key given to \<open>genai.configure\<close>, and the log.
\<close>

record World =
  ctor_calls :: nat
  build_calls :: nat
  search_calls :: nat
  gemini_calls :: nat
  indexed :: "Graphiti set"
  sleeps :: "int list"
  genai_api_key :: "string option"
  logs :: "log_entry list"

definition logger_info :: "string \<Rightarrow> World \<Rightarrow> World" where
  "logger_info msg w = w\<lparr>logs := logs w @ [Info msg]\<rparr>"

definition logger_error :: "string \<Rightarrow> exn \<Rightarrow> World \<Rightarrow> World" where
  "logger_error msg e w = w\<lparr>logs := logs w @ [Error msg e]\<rparr>"

text \<open>\<open>Graphiti(neo4j_uri=..., neo4j_user=..., neo4j_password=..., llm_config=...)\<close>:
  each call is counted; a successful call returns a new object.\<close>

definition Graphiti_new ::
  "Env \<Rightarrow> string \<Rightarrow> string \<Rightarrow> string \<Rightarrow> LLMConfig \<Rightarrow> World \<Rightarrow> (exn + Graphiti) \<times> World" where
  "Graphiti_new env uri user pw cfg w =
     (let n = ctor_calls w; w' = w\<lparr>ctor_calls := Suc n\<rparr> in
      case Graphiti_raises env uri user pw cfg n of
        Some e \<Rightarrow> (Inl e, w')
      | None \<Rightarrow> (Inr (GraphitiObj n), w'))"

definition build_indices :: "Env \<Rightarrow> Graphiti \<Rightarrow> World \<Rightarrow> (exn + unit) \<times> World" where
  "build_indices env g w =
     (let n = build_calls w; w' = w\<lparr>build_calls := Suc n\<rparr> in
      case build_indices_raises env g n of
        Some e \<Rightarrow> (Inl e, w')
      | None \<Rightarrow> (Inr (), w'\<lparr>indexed := insert g (indexed w')\<rparr>))"

definition search ::
  "Env \<Rightarrow> Graphiti \<Rightarrow> string \<Rightarrow> string option \<Rightarrow> int \<Rightarrow> World \<Rightarrow> (exn + result list) \<times> World" where
  "search env g query center_node_uuid limit w =
     (let n = search_calls w in
      (search_outcome env g query center_node_uuid limit n, w\<lparr>search_calls := Suc n\<rparr>))"

text \<open>\<open>genai.GenerativeModel(name).generate_content_async(prompt)\<close>: raises, or returns
  a response that is truthy or falsy.\<close>

definition generate_content :: "Env \<Rightarrow> string \<Rightarrow> string \<Rightarrow> World \<Rightarrow> (exn + bool) \<times> World" where
  "generate_content env name prompt w =
     (let n = gemini_calls w in
      (generate_content_outcome env name prompt n, w\<lparr>gemini_calls := Suc n\<rparr>))"

section \<open>The retry decorator\<close>

text \<open>
  The retry library's policy objects, as the decorator of \<open>initialize_graphiti\<close> builds
  them. \<open>stop_after_attempt(n)\<close> stops once the attempt number has reached \<open>n\<close>;
  \<open>wait_exponential(multiplier, min, max)\<close> waits \<open>multiplier * 2 ** (attempt - 1)\<close>
  seconds, clamped to \<open>[max(0, min), max]\<close>. All quantities are Python ints here.
\<close>

definition stop_after_attempt :: "nat \<Rightarrow> nat \<Rightarrow> bool" where
  "stop_after_attempt max_attempt_number attempt_number =
     (attempt_number \<ge> max_attempt_number)"

definition wait_exponential :: "int \<Rightarrow> int \<Rightarrow> int \<Rightarrow> nat \<Rightarrow> int" where
  "wait_exponential multiplier mn mx attempt_number =
     max (max 0 mn) (min (multiplier * 2 ^ (attempt_number - 1)) mx)"

section \<open>The lifecycle manager (app/utils.py)\<close>

record Manager =
  settings :: Settings
  graphiti :: "Graphiti option"

definition setup_gemini :: "Manager \<Rightarrow> World \<Rightarrow> World" where
  "setup_gemini m w = w\<lparr>genai_api_key := Some (google_api_key (settings m))\<rparr>"

definition GraphitiGeminiManager_init :: "Settings \<Rightarrow> World \<Rightarrow> Manager \<times> World" where
  "GraphitiGeminiManager_init s w =
     (let m = \<lparr>settings = s, graphiti = None\<rparr> in (m, setup_gemini m w))"

text \<open>
  The decorator: call the function; a returned value is the result; on an exception,
  stop with \<open>RetryError\<close> when the stop policy says so, else sleep for what the wait policy
  says and call again with the next attempt number.
\<close>

function retrying ::
  "nat \<Rightarrow> (nat \<Rightarrow> int) \<Rightarrow> (Manager \<Rightarrow> World \<Rightarrow> (exn + 'a) \<times> Manager \<times> World)
    \<Rightarrow> nat \<Rightarrow> Manager \<Rightarrow> World \<Rightarrow> (exn + 'a) \<times> Manager \<times> World" where
  "retrying max_attempt_number wait fn attempt_number m w =
     (case fn m w of
        (Inr v, m', w') \<Rightarrow> (Inr v, m', w')
      | (Inl e, m', w') \<Rightarrow>
          if stop_after_attempt max_attempt_number attempt_number
          then (Inl (RetryError e), m', w')
          else retrying max_attempt_number wait fn (Suc attempt_number) m'
                 (w'\<lparr>sleeps := sleeps w' @ [wait attempt_number]\<rparr>))"
  by pat_completeness auto
termination
  by (relation "measure (\<lambda>(mx, wait, fn, n, m, w). mx - n)")
     (auto simp: stop_after_attempt_def)

text \<open>The body of \<open>initialize_graphiti\<close>: one attempt.\<close>

definition initialize_graphiti_body ::
  "Env \<Rightarrow> Manager \<Rightarrow> World \<Rightarrow> (exn + Graphiti) \<times> Manager \<times> World" where
  "initialize_graphiti_body env m w =
     (case graphiti m of
        Some g \<Rightarrow> (Inr g, m, w)
      | None \<Rightarrow>
          (let llm_config = \<lparr> provider = ''gemini'',
                               model = gemini_model (settings m),
                               temperature = gemini_temperature (settings m),
                               max_tokens = gemini_max_tokens (settings m) \<rparr> in
           case Graphiti_new env (neo4j_uri (settings m)) (neo4j_user (settings m))
                  (neo4j_password (settings m)) llm_config w of
             (Inl e, w1) \<Rightarrow> (Inl e, m, logger_error ''Failed to initialize Graphiti: '' e w1)
           | (Inr g, w1) \<Rightarrow>
               (let m1 = m\<lparr>graphiti := Some g\<rparr> in
                case build_indices env g w1 of
                  (Inl e, w2) \<Rightarrow>
                    (Inl e, m1, logger_error ''Failed to initialize Graphiti: '' e w2)
                | (Inr u, w2) \<Rightarrow>
                    (Inr g, m1,
                     logger_info ''Graphiti initialized successfully with Gemini'' w2))))"

text \<open>\<open>initialize_graphiti\<close> as decorated: \<open>stop_after_attempt(3)\<close>,
  \<open>wait_exponential(multiplier=1, min=4, max=10)\<close>, attempt numbers from 1.\<close>

definition initialize_graphiti ::
  "Env \<Rightarrow> Manager \<Rightarrow> World \<Rightarrow> (exn + Graphiti) \<times> Manager \<times> World" where
  "initialize_graphiti env m w =
     retrying 3 (wait_exponential 1 4 10) (initialize_graphiti_body env) 1 m w"

text \<open>\<open>get_graphiti\<close> returns the attribute \<open>_graphiti\<close>, whatever it holds.\<close>

definition get_graphiti ::
  "Env \<Rightarrow> Manager \<Rightarrow> World \<Rightarrow> (exn + Graphiti option) \<times> Manager \<times> World" where
  "get_graphiti env m w =
     (case graphiti m of
        None \<Rightarrow>
          (case initialize_graphiti env m w of
             (Inl e, m', w') \<Rightarrow> (Inl e, m', w')
           | (Inr g, m', w') \<Rightarrow> (Inr (graphiti m'), m', w'))
      | Some g \<Rightarrow> (Inr (graphiti m), m, w))"

text \<open>A method call on what \<open>get_graphiti\<close> returned; on \<open>None\<close> Python raises
  \<open>AttributeError\<close>.\<close>

definition search_on ::
  "Env \<Rightarrow> Graphiti option \<Rightarrow> string \<Rightarrow> string option \<Rightarrow> int \<Rightarrow> World
     \<Rightarrow> (exn + result list) \<times> World" where
  "search_on env h query center_node_uuid limit w =
     (case h of
        None \<Rightarrow> (Inl (AttributeError ''search''), w)
      | Some g \<Rightarrow> search env g query center_node_uuid limit w)"

text \<open>
  \<open>health_check\<close>: the status dictionary starts with three \<open>unknown\<close> entries; each of
  the two \<open>try\<close> blocks has its own handler.
\<close>

definition health_check ::
  "Env \<Rightarrow> Manager \<Rightarrow> World \<Rightarrow> (exn + (string \<rightharpoonup> string)) \<times> Manager \<times> World" where
  "health_check env m w =
     (let health_status = [''graphiti'' \<mapsto> ''unknown'', ''neo4j'' \<mapsto> ''unknown'',
                           ''gemini'' \<mapsto> ''unknown''];
          (health_status, w) =
            (case generate_content env (gemini_model (settings m)) ''Hello'' w of
               (Inr response, w1) \<Rightarrow>
                 (health_status(''gemini'' \<mapsto> (if response then ''healthy'' else ''unhealthy'')),
                  w1)
             | (Inl e, w1) \<Rightarrow>
                 (health_status(''gemini'' \<mapsto> ''unhealthy''),
                  logger_error ''Gemini health check failed: '' e w1));
          (health_status, m, w) =
            (case get_graphiti env m w of
               (Inl e, m1, w1) \<Rightarrow>
                 (health_status(''graphiti'' \<mapsto> ''unhealthy'', ''neo4j'' \<mapsto> ''unhealthy''),
                  m1, logger_error ''Graphiti/Neo4j health check failed: '' e w1)
             | (Inr h, m1, w1) \<Rightarrow>
                 (case search_on env h ''health_check'' None 1 w1 of
                    (Inl e, w2) \<Rightarrow>
                      (health_status(''graphiti'' \<mapsto> ''unhealthy'', ''neo4j'' \<mapsto> ''unhealthy''),
                       m1, logger_error ''Graphiti/Neo4j health check failed: '' e w2)
                  | (Inr rs, w2) \<Rightarrow>
                      (health_status(''graphiti'' \<mapsto> ''healthy'', ''neo4j'' \<mapsto> ''healthy''),
                       m1, w2)))
      in (Inr health_status, m, w))"

section \<open>The search endpoint (app/main.py, app/models.py)\<close>

record SearchRequest =
  query :: string
  limit :: int
  center_node_uuid :: "string option"

text \<open>\<open>SearchResponse\<close>: \<open>results: List[Dict[str, Any]]\<close>, \<open>total_count: int\<close>,
  \<open>query: str\<close> (the last field is named \<open>query_echo\<close> here, \<open>query\<close> being the
  request's field).\<close>

record SearchResponse =
  results :: "(string \<times> pyval) list list"
  total_count :: int
  query_echo :: string

datatype http_exn = HTTPException nat string exn

text \<open>
  The validation the response model's declared type \<open>Dict[str, Any]\<close> performs on one
  element of \<open>results\<close>: a dict is taken as it is; anything else is taken when \<open>dict(v)\<close>
  accepts it (of the values here, only the empty string, which gives the empty dict) and
  refused with a validation error otherwise.
\<close>

definition validate_dict :: "pyval \<Rightarrow> exn + (string \<times> pyval) list" where
  "validate_dict v =
     (case v of
        PyDict kvs \<Rightarrow> Inr kvs
      | PyStr s \<Rightarrow> if s = [] then Inr [] else Inl (ValidationError ''value is not a valid dict'')
      | PyInt i \<Rightarrow> Inl (ValidationError ''value is not a valid dict'')
      | PyNone \<Rightarrow> Inl (ValidationError ''none is not an allowed value''))"

fun validate_list :: "pyval list \<Rightarrow> exn + (string \<times> pyval) list list" where
  "validate_list [] = Inr []"
| "validate_list (v # vs) =
     (case validate_dict v of
        Inl e \<Rightarrow> Inl e
      | Inr d \<Rightarrow> (case validate_list vs of Inl e \<Rightarrow> Inl e | Inr ds \<Rightarrow> Inr (d # ds)))"

definition SearchResponse_init :: "pyval list \<Rightarrow> int \<Rightarrow> string \<Rightarrow> exn + SearchResponse" where
  "SearchResponse_init rs n q =
     (case validate_list rs of
        Inl e \<Rightarrow> Inl e
      | Inr ds \<Rightarrow> Inr \<lparr>results = ds, total_count = n, query_echo = q\<rparr>)"

text \<open>The loop of \<open>search_graph\<close> that fills \<open>serializable_results\<close>.\<close>

fun serialize :: "result list \<Rightarrow> pyval list \<Rightarrow> exn + pyval list" where
  "serialize [] serializable_results = Inr serializable_results"
| "serialize (r # rs) serializable_results =
     (case to_dict r of
        Some (Inl e) \<Rightarrow> Inl e
      | Some (Inr v) \<Rightarrow> serialize rs (serializable_results @ [v])
      | None \<Rightarrow> serialize rs (serializable_results @ [PyStr (str_form r)]))"

text \<open>The module-level singleton \<open>graphiti_manager\<close> and \<open>get_manager\<close>.\<close>

record App =
  graphiti_manager :: "Manager option"

definition get_manager :: "Settings \<Rightarrow> App \<Rightarrow> World \<Rightarrow> Manager \<times> App \<times> World" where
  "get_manager s app w =
     (case graphiti_manager app of
        None \<Rightarrow>
          (let (m, w') = GraphitiGeminiManager_init s w in
           (m, app\<lparr>graphiti_manager := Some m\<rparr>, w'))
      | Some m \<Rightarrow> (m, app, w))"

text \<open>
  \<open>search_graph\<close>. The manager is one shared object: what a method does to it is stored
  back into the singleton. Every exception of the \<open>try\<close> block is logged and answered
  with status 500.
\<close>

definition search_failed :: "exn \<Rightarrow> App \<Rightarrow> World \<Rightarrow> (http_exn + SearchResponse) \<times> App \<times> World" where
  "search_failed e app w =
     (Inl (HTTPException 500 ''Search failed: '' e), app, logger_error ''Search failed: '' e w)"

definition search_graph ::
  "Env \<Rightarrow> Settings \<Rightarrow> SearchRequest \<Rightarrow> App \<Rightarrow> World
     \<Rightarrow> (http_exn + SearchResponse) \<times> App \<times> World" where
  "search_graph env s req app w =
     (let (manager, app, w) = get_manager s app w in
      case get_graphiti env manager w of
        (Inl e, manager, w) \<Rightarrow> search_failed e (app\<lparr>graphiti_manager := Some manager\<rparr>) w
      | (Inr h, manager, w) \<Rightarrow>
          (let app = app\<lparr>graphiti_manager := Some manager\<rparr>;
               center = (case center_node_uuid req of
                           None \<Rightarrow> None
                         | Some u \<Rightarrow> if u = [] then None else Some u) in
           case search_on env h (query req) center (limit req) w of
             (Inl e, w) \<Rightarrow> search_failed e app w
           | (Inr rs, w) \<Rightarrow>
               (case serialize rs [] of
                  Inl e \<Rightarrow> search_failed e app w
                | Inr serializable_results \<Rightarrow>
                    (let w = w\<lparr>logs := logs w @ [SearchCompleted (length rs) (query req)]\<rparr> in
                     case SearchResponse_init serializable_results (int (length rs)) (query req) of
                       Inl e \<Rightarrow> search_failed e app w
                     | Inr resp \<Rightarrow> (Inr resp, app, w)))))"

section \<open>Runs of the manager\<close>

text \<open>
  The three operations of the manager, and the states a sequence of calls goes through
  (the state after each call, in order).
\<close>

datatype call = InitializeGraphiti | GetGraphiti | HealthCheck

fun do_call :: "Env \<Rightarrow> call \<Rightarrow> Manager \<times> World \<Rightarrow> Manager \<times> World" where
  "do_call env InitializeGraphiti (m, w) = snd (initialize_graphiti env m w)"
| "do_call env GetGraphiti (m, w) = snd (get_graphiti env m w)"
| "do_call env HealthCheck (m, w) = snd (health_check env m w)"

fun states_after :: "Env \<Rightarrow> call list \<Rightarrow> Manager \<times> World \<Rightarrow> (Manager \<times> World) list" where
  "states_after env [] s = []"
| "states_after env (c # cs) s = do_call env c s # states_after env cs (do_call env c s)"

text \<open>
  What the constructor does on its n-th call when it is given the arguments that
  \<open>initialize_graphiti\<close> passes for the manager's settings (\<open>None\<close>: it returns).
\<close>

definition ctor_outcome :: "Env \<Rightarrow> Manager \<Rightarrow> nat \<Rightarrow> exn option" where
  "ctor_outcome env m n =
     Graphiti_raises env (neo4j_uri (settings m)) (neo4j_user (settings m))
       (neo4j_password (settings m))
       \<lparr> provider = ''gemini'', model = gemini_model (settings m),
         temperature = gemini_temperature (settings m),
         max_tokens = gemini_max_tokens (settings m) \<rparr> n"

text \<open>The manager with other values of the settings \<open>max_retries\<close> and \<open>retry_delay\<close>.\<close>

definition with_retry_settings :: "int \<Rightarrow> real \<Rightarrow> Manager \<Rightarrow> Manager" where
  "with_retry_settings r d m = m\<lparr>settings := (settings m)\<lparr>max_retries := r, retry_delay := d\<rparr>\<rparr>"

text \<open>The seconds slept during a run that started in world \<open>w\<close> and ended in \<open>w'\<close>.\<close>

definition delays_between :: "World \<Rightarrow> World \<Rightarrow> int list" where
  "delays_between w w' = drop (length (sleeps w)) (sleeps w')"

section \<open>Concrete inputs\<close>

text \<open>
  A mock of the external services: the constructor raises on its first \<open>k\<close> calls and
  returns afterwards; \<open>build_indices\<close> always raises or never does; \<open>search\<close> and the
  language model give the same outcome on every call.
\<close>

definition mock_engine :: "nat \<Rightarrow> bool \<Rightarrow> exn + result list \<Rightarrow> exn + bool \<Rightarrow> Env" where
  "mock_engine k build_fails search_result gemini_result =
     \<lparr> Graphiti_raises =
         (\<lambda>uri user pw cfg n. if n < k then Some (Exception ''connection refused'') else None),
       build_indices_raises =
         (\<lambda>g n. if build_fails then Some (Exception ''index build failed'') else None),
       search_outcome = (\<lambda>g q c l n. search_result),
       generate_content_outcome = (\<lambda>name prompt n. gemini_result) \<rparr>"

definition settings0 :: Settings where
  "settings0 = Settings_defaults ''google-key'' ''openai-key'' ''secret''"

definition world0 :: World where
  "world0 = \<lparr> ctor_calls = 0, build_calls = 0, search_calls = 0, gemini_calls = 0,
              indexed = {}, sleeps = [], genai_api_key = None, logs = [] \<rparr>"

definition manager0 :: Manager where
  "manager0 = \<lparr>settings = settings0, graphiti = None\<rparr>"

definition app0 :: App where
  "app0 = \<lparr>graphiti_manager = None\<rparr>"

definition request0 :: SearchRequest where
  "request0 = \<lparr>query = ''alice'', limit = 10, center_node_uuid = None\<rparr>"

section \<open>The retry decorator: basic facts\<close>

declare retrying.simps [simp del]

lemma retrying_returns:
  "fn m w = (Inr v, m', w') \<Longrightarrow> retrying mx wait fn n m w = (Inr v, m', w')"
  by (subst retrying.simps) simp

lemma retrying_stops:
  "fn m w = (Inl e, m', w') \<Longrightarrow> mx \<le> n \<Longrightarrow>
   retrying mx wait fn n m w = (Inl (RetryError e), m', w')"
  by (subst retrying.simps) (simp add: stop_after_attempt_def)

lemma retrying_again:
  "fn m w = (Inl e, m', w') \<Longrightarrow> n < mx \<Longrightarrow>
   retrying mx wait fn n m w =
     retrying mx wait fn (Suc n) m' (w'\<lparr>sleeps := sleeps w' @ [wait n]\<rparr>)"
  by (subst retrying.simps) (simp add: stop_after_attempt_def)

lemmas mock_defs = mock_engine_def settings0_def world0_def manager0_def app0_def request0_def
  Settings_defaults_def

lemmas model_defs = initialize_graphiti_body_def Graphiti_new_def build_indices_def
  logger_error_def logger_info_def search_def search_on_def generate_content_def
  ctor_outcome_def

section \<open>Initialisation\<close>

lemma body_ready:
  "graphiti m = Some g \<Longrightarrow> initialize_graphiti_body env m w = (Inr g, m, w)"
  by (simp add: initialize_graphiti_body_def)

lemma init_ready: "graphiti m = Some g \<Longrightarrow> initialize_graphiti env m w = (Inr g, m, w)"
  unfolding initialize_graphiti_def by (rule retrying_returns) (rule body_ready)

lemma get_ready: "graphiti m = Some g \<Longrightarrow> get_graphiti env m w = (Inr (Some g), m, w)"
  by (simp add: get_graphiti_def)

text \<open>With three attempts allowed, the decorated function is at most three runs of its
  body, with a sleep of four seconds before the second and before the third.\<close>

lemma initialize_graphiti_unfold:
  "initialize_graphiti env m w =
     (case initialize_graphiti_body env m w of
        (Inr v, m1, w1) \<Rightarrow> (Inr v, m1, w1)
      | (Inl e1, m1, w1) \<Rightarrow>
          (case initialize_graphiti_body env m1 (w1\<lparr>sleeps := sleeps w1 @ [4]\<rparr>) of
             (Inr v, m2, w2) \<Rightarrow> (Inr v, m2, w2)
           | (Inl e2, m2, w2) \<Rightarrow>
               (case initialize_graphiti_body env m2 (w2\<lparr>sleeps := sleeps w2 @ [4]\<rparr>) of
                  (Inr v, m3, w3) \<Rightarrow> (Inr v, m3, w3)
                | (Inl e3, m3, w3) \<Rightarrow> (Inl (RetryError e3), m3, w3))))"
proof -
  let ?body = "initialize_graphiti_body env"
  let ?wait = "wait_exponential 1 4 10"
  have w1: "?wait 1 = 4" and w2: "?wait (Suc 1) = 4"
    by (simp_all add: wait_exponential_def)
  obtain r1 m1 w1 where b1: "?body m w = (r1, m1, w1)"
    by (cases "?body m w") auto
  show ?thesis
  proof (cases r1)
    case (Inr v)
    with b1 show ?thesis
      unfolding initialize_graphiti_def by (simp add: retrying_returns)
  next
    case e1: (Inl e1)
    obtain r2 m2 w2 where b2: "?body m1 (w1\<lparr>sleeps := sleeps w1 @ [4]\<rparr>) = (r2, m2, w2)"
      by (cases "?body m1 (w1\<lparr>sleeps := sleeps w1 @ [4]\<rparr>)") auto
    have step1: "initialize_graphiti env m w =
                   retrying 3 ?wait ?body (Suc 1) m1 (w1\<lparr>sleeps := sleeps w1 @ [4]\<rparr>)"
      unfolding initialize_graphiti_def using b1 e1 w1
      by (simp add: retrying_again [where e = e1 and m' = m1 and w' = w1])
    show ?thesis
    proof (cases r2)
      case (Inr v)
      with b1 e1 b2 step1 show ?thesis by (simp add: retrying_returns)
    next
      case e2: (Inl e2)
      obtain r3 m3 w3 where b3: "?body m2 (w2\<lparr>sleeps := sleeps w2 @ [4]\<rparr>) = (r3, m3, w3)"
        by (cases "?body m2 (w2\<lparr>sleeps := sleeps w2 @ [4]\<rparr>)") auto
      have step2: "initialize_graphiti env m w =
                     retrying 3 ?wait ?body (Suc (Suc 1)) m2 (w2\<lparr>sleeps := sleeps w2 @ [4]\<rparr>)"
        using step1 b2 e2 w2
        by (simp add: retrying_again [where e = e2 and m' = m2 and w' = w2])
      show ?thesis
      proof (cases r3)
        case (Inr v)
        with b1 e1 b2 e2 b3 step2 show ?thesis by (simp add: retrying_returns)
      next
        case e3: (Inl e3)
        with b1 e1 b2 e2 b3 step2 show ?thesis
          by (simp add: retrying_stops [where e = e3 and m' = m3 and w' = w3])
      qed
    qed
  qed
qed

text \<open>
  C6. Once construction has succeeded (the stored handle is not \<open>None\<close>), another call of
  \<open>initialize_graphiti\<close> returns that same handle and leaves the manager and the world as
  they were: no constructor call, no \<open>build_indices\<close>, no sleep, no log record.
\<close>

theorem initialize_graphiti_idempotent_when_ready:
  "graphiti m = Some g \<Longrightarrow>
     initialize_graphiti env m w = (Inr g, m, w) \<and>
     ctor_calls (snd (snd (initialize_graphiti env m w))) = ctor_calls w"
  by (simp add: init_ready)

theorem initialize_graphiti_idempotent_when_ready_witness:
  "graphiti (fst (snd (initialize_graphiti (mock_engine 0 False (Inr []) (Inr True)) manager0 world0)))
     = Some (GraphitiObj 0) \<and>
   initialize_graphiti (mock_engine 0 False (Inr []) (Inr True))
     (fst (snd (initialize_graphiti (mock_engine 0 False (Inr []) (Inr True)) manager0 world0)))
     (snd (snd (initialize_graphiti (mock_engine 0 False (Inr []) (Inr True)) manager0 world0)))
   = (Inr (GraphitiObj 0),
      fst (snd (initialize_graphiti (mock_engine 0 False (Inr []) (Inr True)) manager0 world0)),
      snd (snd (initialize_graphiti (mock_engine 0 False (Inr []) (Inr True)) manager0 world0))) \<and>
   ctor_calls (snd (snd (initialize_graphiti (mock_engine 0 False (Inr []) (Inr True)) manager0 world0)))
     = 1"
proof -
  let ?E = "mock_engine 0 False (Inr []) (Inr True)"
  let ?first = "initialize_graphiti ?E manager0 world0"
  have ready: "graphiti (fst (snd ?first)) = Some (GraphitiObj 0)"
    by (simp add: initialize_graphiti_unfold model_defs mock_defs)
  have once: "ctor_calls (snd (snd ?first)) = 1"
    by (simp add: initialize_graphiti_unfold model_defs mock_defs)
  from initialize_graphiti_idempotent_when_ready [OF ready, of ?E "snd (snd ?first)"] ready once
  show ?thesis by simp
qed

section \<open>The stored handle\<close>

lemma health_check_manager_ready:
  "graphiti m = Some g \<Longrightarrow> fst (snd (health_check env m w)) = m"
  by (simp add: health_check_def get_ready Let_def split: prod.splits sum.splits)

lemma do_call_keeps_handle:
  "graphiti (fst s) = Some g \<Longrightarrow> graphiti (fst (do_call env c s)) = Some g"
  by (cases s; cases c) (simp_all add: init_ready get_ready health_check_manager_ready)

text \<open>
  C5. Once the stored handle is some object \<open>g\<close>, it is \<open>g\<close> in the state after every
  call of every sequence of \<open>initialize_graphiti\<close>, \<open>get_graphiti\<close> and \<open>health_check\<close>
  calls, whatever the external services do (a failing health probe included).
\<close>

theorem handle_never_replaced:
  "graphiti m = Some g \<Longrightarrow>
     \<forall>s \<in> set (states_after env cs (m, w)). graphiti (fst s) = Some g"
proof -
  have "graphiti (fst s0) = Some g \<Longrightarrow>
          \<forall>s \<in> set (states_after env cs s0). graphiti (fst s) = Some g" for s0
  proof (induction cs arbitrary: s0)
    case Nil
    then show ?case by simp
  next
    case (Cons c cs)
    from Cons.prems have "graphiti (fst (do_call env c s0)) = Some g"
      by (rule do_call_keeps_handle)
    with Cons.IH [of "do_call env c s0"] show ?case by simp
  qed
  from this [of "(m, w)"] show "graphiti m = Some g \<Longrightarrow> ?thesis" by simp
qed

theorem handle_never_replaced_witness:
  "graphiti (manager0\<lparr>graphiti := Some (GraphitiObj 7)\<rparr>) = Some (GraphitiObj 7) \<and>
   list_all (\<lambda>s. graphiti (fst s) = Some (GraphitiObj 7))
     (states_after
        (mock_engine 0 False (Inl (Exception ''neo4j down'')) (Inl (Exception ''quota exceeded'')))
        [HealthCheck, InitializeGraphiti, GetGraphiti, HealthCheck]
        (manager0\<lparr>graphiti := Some (GraphitiObj 7)\<rparr>, world0)) \<and>
   length (states_after
        (mock_engine 0 False (Inl (Exception ''neo4j down'')) (Inl (Exception ''quota exceeded'')))
        [HealthCheck, InitializeGraphiti, GetGraphiti, HealthCheck]
        (manager0\<lparr>graphiti := Some (GraphitiObj 7)\<rparr>, world0)) = 4"
proof -
  have ready: "graphiti (manager0\<lparr>graphiti := Some (GraphitiObj 7)\<rparr>) = Some (GraphitiObj 7)"
    by simp
  let ?E = "mock_engine 0 False (Inl (Exception ''neo4j down'')) (Inl (Exception ''quota exceeded''))"
  let ?cs = "[HealthCheck, InitializeGraphiti, GetGraphiti, HealthCheck]"
  have kept: "list_all (\<lambda>s. graphiti (fst s) = Some (GraphitiObj 7))
                (states_after ?E ?cs (manager0\<lparr>graphiti := Some (GraphitiObj 7)\<rparr>, world0))"
    unfolding list_all_iff by (rule handle_never_replaced [OF ready])
  have len: "length (states_after ?E ?cs (manager0\<lparr>graphiti := Some (GraphitiObj 7)\<rparr>, world0)) = 4"
    by simp
  from ready kept len show ?thesis by (intro conjI)
qed

section \<open>The health check\<close>

lemma get_graphiti_engine_counts:
  "ctor_calls (snd (snd (get_graphiti env m w))) \<ge> ctor_calls w \<and>
   search_calls (snd (snd (get_graphiti env m w))) = search_calls w \<and>
   gemini_calls (snd (snd (get_graphiti env m w))) = gemini_calls w \<and>
   (graphiti m = None \<longrightarrow> ctor_calls (snd (snd (get_graphiti env m w))) > ctor_calls w)"
  by (cases "graphiti m")
     (auto simp: get_graphiti_def initialize_graphiti_unfold model_defs Let_def
           split: option.splits prod.splits sum.splits)

lemma get_graphiti_returns_stored:
  "fst (get_graphiti env m w) = Inr h \<Longrightarrow> h = graphiti (fst (snd (get_graphiti env m w)))"
  by (auto simp: get_graphiti_def split: option.splits prod.splits sum.splits)

lemma get_graphiti_Inr_None:
  "fst (get_graphiti env m w) = Inr h \<Longrightarrow> graphiti m = None \<or> h \<noteq> None"
  by (auto simp: get_graphiti_def split: option.splits prod.splits sum.splits)

text \<open>
  What \<open>initialize_graphiti\<close> and \<open>get_graphiti\<close> return and store depends on the world
  only through the counts of constructor and \<open>build_indices\<close> calls: not on the log, nor
  on the calls made to the language model.
\<close>

lemma body_frame:
  assumes "initialize_graphiti_body env m w = (r, m1, w1)"
    and "ctor_calls w' = ctor_calls w" and "build_calls w' = build_calls w"
  shows "\<exists>w1'. initialize_graphiti_body env m w' = (r, m1, w1') \<and>
               ctor_calls w1' = ctor_calls w1 \<and> build_calls w1' = build_calls w1"
  using assms
  by (auto simp: initialize_graphiti_body_def Graphiti_new_def build_indices_def
        logger_error_def logger_info_def Let_def split: option.splits)

lemma retrying_frame:
  assumes "\<And>m w w' r m1 w1. fn m w = (r, m1, w1) \<Longrightarrow> ctor_calls w' = ctor_calls w \<Longrightarrow>
             build_calls w' = build_calls w \<Longrightarrow>
             \<exists>w1'. fn m w' = (r, m1, w1') \<and> ctor_calls w1' = ctor_calls w1 \<and>
                   build_calls w1' = build_calls w1"
    and "ctor_calls w' = ctor_calls w" and "build_calls w' = build_calls w"
  shows "fst (retrying mx wait fn n m w') = fst (retrying mx wait fn n m w) \<and>
         fst (snd (retrying mx wait fn n m w')) = fst (snd (retrying mx wait fn n m w))"
  using assms
proof (induction mx wait fn n m w arbitrary: w' rule: retrying.induct)
  case (1 mx wait fn n m w)
  obtain r m1 w1 where r: "fn m w = (r, m1, w1)" by (cases "fn m w") auto
  from "1.prems"(1) [OF r "1.prems"(2,3)] obtain w1' where
    r': "fn m w' = (r, m1, w1')" and eq: "ctor_calls w1' = ctor_calls w1"
    "build_calls w1' = build_calls w1" by blast
  show ?case
  proof (cases r)
    case (Inr v)
    with r r' show ?thesis by (simp add: retrying_returns)
  next
    case (Inl e)
    show ?thesis
    proof (cases "mx \<le> n")
      case True
      with r r' Inl show ?thesis by (simp add: retrying_stops)
    next
      case False
      then have lt: "n < mx" by simp
      have ns: "\<not> stop_after_attempt mx n" using lt by (simp add: stop_after_attempt_def)
      have "fst (retrying mx wait fn (Suc n) m1 (w1'\<lparr>sleeps := sleeps w1' @ [wait n]\<rparr>)) =
            fst (retrying mx wait fn (Suc n) m1 (w1\<lparr>sleeps := sleeps w1 @ [wait n]\<rparr>)) \<and>
            fst (snd (retrying mx wait fn (Suc n) m1 (w1'\<lparr>sleeps := sleeps w1' @ [wait n]\<rparr>))) =
            fst (snd (retrying mx wait fn (Suc n) m1 (w1\<lparr>sleeps := sleeps w1 @ [wait n]\<rparr>)))"
        by (rule "1.IH" [of r "(m1, w1)" e m1 w1])
           (simp_all add: r Inl ns eq "1.prems"(1))
      with r r' Inl lt show ?thesis by (simp add: retrying_again)
    qed
  qed
qed

lemma get_graphiti_frame:
  assumes "ctor_calls w' = ctor_calls w" and "build_calls w' = build_calls w"
  shows "fst (get_graphiti env m w') = fst (get_graphiti env m w)"
proof (cases "graphiti m")
  case (Some g)
  then show ?thesis by (simp add: get_ready)
next
  case None
  have "fst (initialize_graphiti env m w') = fst (initialize_graphiti env m w) \<and>
        fst (snd (initialize_graphiti env m w')) = fst (snd (initialize_graphiti env m w))"
    unfolding initialize_graphiti_def
    by (rule retrying_frame [OF body_frame assms])
  with None show ?thesis
    by (auto simp: get_graphiti_def split: prod.splits sum.splits)
qed

text \<open>
  C7. Whatever the two probes do (each may return, return something falsy, or raise),
  \<open>health_check\<close> returns a report and raises nothing. The report has exactly the three
  names, each mapped to \<open>healthy\<close> or \<open>unhealthy\<close>; the entries of the graph engine and
  of the database are equal. The model's entry is \<open>healthy\<close> exactly when the model probe
  returned a truthy response, whatever the engine probe does. The engine's and the
  database's entry is \<open>healthy\<close> exactly when \<open>get_graphiti\<close> returns a handle and the
  one shared query \<open>search("health_check", limit=1)\<close> on it returns, whatever the model
  probe does: a failure to construct the handle and a raising query both give
  \<open>unhealthy\<close>. Both probes run in every case: the model is called once, and the engine
  probe makes at least one constructor or search call.
\<close>

theorem health_check_absorbs_failures:
  "\<exists>report m' w'.
      health_check env m w = (Inr report, m', w') \<and>
      dom report = {''graphiti'', ''neo4j'', ''gemini''} \<and>
      report ''gemini'' \<in> {Some ''healthy'', Some ''unhealthy''} \<and>
      report ''graphiti'' \<in> {Some ''healthy'', Some ''unhealthy''} \<and>
      report ''neo4j'' = report ''graphiti'' \<and>
      (report ''gemini'' = Some ''healthy'') =
        (generate_content_outcome env (gemini_model (settings m)) ''Hello'' (gemini_calls w)
           = Inr True) \<and>
      (report ''graphiti'' = Some ''healthy'') =
        (case fst (get_graphiti env m w) of
           Inl e \<Rightarrow> False
         | Inr None \<Rightarrow> False
         | Inr (Some g) \<Rightarrow>
             \<not> isl (search_outcome env g ''health_check'' None 1 (search_calls w))) \<and>
      gemini_calls w' = Suc (gemini_calls w) \<and>
      ctor_calls w + search_calls w < ctor_calls w' + search_calls w'"
proof -
  define out where
    "out = generate_content_outcome env (gemini_model (settings m)) ''Hello'' (gemini_calls w)"
  define wg where
    "wg = (case out of
             Inr response \<Rightarrow> w\<lparr>gemini_calls := Suc (gemini_calls w)\<rparr>
           | Inl e \<Rightarrow> logger_error ''Gemini health check failed: '' e
                      (w\<lparr>gemini_calls := Suc (gemini_calls w)\<rparr>))"
  have wg: "gemini_calls wg = Suc (gemini_calls w)" "ctor_calls wg = ctor_calls w"
    "search_calls wg = search_calls w" "build_calls wg = build_calls w"
    by (simp_all add: wg_def logger_error_def split: sum.splits)
  obtain r m1 w1 where g: "get_graphiti env m wg = (r, m1, w1)"
    by (cases "get_graphiti env m wg") auto
  have fr: "fst (get_graphiti env m w) = r"
    using get_graphiti_frame [OF wg(2) wg(4), of env m] g by simp
  from get_graphiti_engine_counts [of wg env m] g wg
  have c: "ctor_calls w \<le> ctor_calls w1" "search_calls w1 = search_calls w"
    "gemini_calls w1 = Suc (gemini_calls w)"
    "graphiti m = None \<Longrightarrow> ctor_calls w < ctor_calls w1"
    by simp_all
  have none: "graphiti m = None" if "r = Inr None"
    using get_graphiti_Inr_None [of env m wg None] g that by simp
  have ran: "ctor_calls w < ctor_calls w1" if "r = Inl e" for e
  proof (cases "graphiti m")
    case None
    then show ?thesis by (rule c(4))
  next
    case (Some h)
    with g that show ?thesis by (simp add: get_ready)
  qed
  show ?thesis
  proof (cases out)
    case (Inl e)
    with g c none ran show ?thesis
      unfolding health_check_def generate_content_def search_on_def search_def Let_def fr
      by (cases r) (auto simp: out_def [symmetric] wg_def logger_error_def
                         split: option.splits sum.splits)
  next
    case (Inr b)
    with g c none ran show ?thesis
      unfolding health_check_def generate_content_def search_on_def search_def Let_def fr
      by (cases r) (auto simp: out_def [symmetric] wg_def logger_error_def
                         split: option.splits sum.splits)
  qed
qed

text \<open>The model probe raises and the engine answers: the model is reported unhealthy,
  engine and database healthy.\<close>

lemma health_check_isolation_example:
  "fst (health_check (mock_engine 0 False (Inr []) (Inl (Exception ''quota exceeded'')))
          manager0 world0) =
     Inr [''graphiti'' \<mapsto> ''healthy'', ''neo4j'' \<mapsto> ''healthy'', ''gemini'' \<mapsto> ''unhealthy'']"
  by (simp add: health_check_def get_graphiti_def initialize_graphiti_unfold model_defs
        mock_defs Let_def fun_upd_twist)

text \<open>The engine's query raises and the model answers: engine and database are reported
  unhealthy, the model healthy. When the handle cannot be constructed and the model's
  response is falsy, all three are unhealthy.\<close>

lemma health_check_engine_down_example:
  "fst (health_check (mock_engine 0 False (Inl (Exception ''neo4j down'')) (Inr True))
          manager0 world0) =
     Inr [''graphiti'' \<mapsto> ''unhealthy'', ''neo4j'' \<mapsto> ''unhealthy'', ''gemini'' \<mapsto> ''healthy'']"
  by (simp add: health_check_def get_graphiti_def initialize_graphiti_unfold model_defs
        mock_defs Let_def fun_upd_twist)

lemma health_check_construction_fails_example:
  "fst (health_check (mock_engine 3 False (Inr []) (Inr False)) manager0 world0) =
     Inr [''graphiti'' \<mapsto> ''unhealthy'', ''neo4j'' \<mapsto> ''unhealthy'', ''gemini'' \<mapsto> ''unhealthy'']"
  by (simp add: health_check_def get_graphiti_def initialize_graphiti_unfold model_defs
        mock_defs Let_def fun_upd_twist)

section \<open>Backoff between attempts\<close>

lemma wait_exponential_mono:
  "0 \<le> multiplier \<Longrightarrow> a \<le> b \<Longrightarrow>
   wait_exponential multiplier mn mx a \<le> wait_exponential multiplier mn mx b"
proof -
  assume m: "0 \<le> multiplier" and ab: "a \<le> b"
  have "(2::int) ^ (a - 1) \<le> 2 ^ (b - 1)"
    using ab by (intro power_increasing) auto
  then have "multiplier * 2 ^ (a - 1) \<le> multiplier * 2 ^ (b - 1)"
    using m by (rule mult_left_mono)
  then show ?thesis
    unfolding wait_exponential_def by (auto simp: min_def max_def)
qed

lemma wait_exponential_bounds:
  "0 \<le> mn \<Longrightarrow> mn \<le> mx \<Longrightarrow>
   mn \<le> wait_exponential multiplier mn mx n \<and> wait_exponential multiplier mn mx n \<le> mx"
  unfolding wait_exponential_def by (auto simp: min_def max_def)

lemma body_sleeps: "sleeps (snd (snd (initialize_graphiti_body env m w))) = sleeps w"
  by (simp add: initialize_graphiti_body_def Graphiti_new_def build_indices_def
        logger_error_def logger_info_def Let_def split: option.splits prod.splits sum.splits)

lemma retrying_sleeps:
  assumes "\<And>m w. sleeps (snd (snd (fn m w))) = sleeps w"
  shows "\<exists>k. k \<le> mx - n \<and>
           sleeps (snd (snd (retrying mx wait fn n m w))) = sleeps w @ map wait [n..<n + k]"
  using assms
proof (induction mx wait fn n m w rule: retrying.induct)
  case (1 mx wait fn n m w)
  obtain r m' w' where r: "fn m w = (r, m', w')" by (cases "fn m w") auto
  have sl: "sleeps w' = sleeps w" using "1.prems" [of m w] r by simp
  show ?case
  proof (cases r)
    case (Inr v)
    then show ?thesis using r sl by (intro exI [of _ 0]) (simp add: retrying_returns)
  next
    case (Inl e)
    show ?thesis
    proof (cases "mx \<le> n")
      case True
      then show ?thesis using r sl Inl by (intro exI [of _ 0]) (simp add: retrying_stops)
    next
      case False
      then have lt: "n < mx" by simp
      have ns: "\<not> stop_after_attempt mx n" using lt by (simp add: stop_after_attempt_def)
      have "\<exists>k. k \<le> mx - Suc n \<and>
              sleeps (snd (snd (retrying mx wait fn (Suc n) m'
                   (w'\<lparr>sleeps := sleeps w' @ [wait n]\<rparr>)))) =
              sleeps (w'\<lparr>sleeps := sleeps w' @ [wait n]\<rparr>) @ map wait [Suc n..<Suc n + k]"
        by (rule "1.IH" [of r "(m', w')" e m' w']) (simp_all add: r Inl ns "1.prems")
      then obtain k where k: "k \<le> mx - Suc n"
        and IH: "sleeps (snd (snd (retrying mx wait fn (Suc n) m'
                   (w'\<lparr>sleeps := sleeps w' @ [wait n]\<rparr>)))) =
                 (sleeps w' @ [wait n]) @ map wait [Suc n..<Suc n + k]"
        by auto
      have "[n..<n + Suc k] = n # [Suc n..<Suc n + k]"
        by (simp add: upt_conv_Cons)
      then show ?thesis
        using k lt IH sl r Inl
        by (intro exI [of _ "Suc k"]) (simp add: retrying_again)
    qed
  qed
qed

lemma initialize_graphiti_delays:
  "\<exists>k. k \<le> 2 \<and>
     sleeps (snd (snd (initialize_graphiti env m w))) =
       sleeps w @ map (wait_exponential 1 4 10) [1..<1 + k]"
  using retrying_sleeps [of "initialize_graphiti_body env" 3 1 "wait_exponential 1 4 10" m w]
  unfolding initialize_graphiti_def by (simp add: body_sleeps)

text \<open>
  C8. In every run of \<open>initialize_graphiti\<close> (the failing ones included), the delays
  slept between its attempts, in order, are non-decreasing, and each is at most 10
  seconds, the \<open>max\<close> the decorator gives to \<open>wait_exponential\<close>.
\<close>

theorem backoff_delays_monotone_and_bounded:
  "sleeps (snd (snd (initialize_graphiti env m w))) =
     sleeps w @ delays_between w (snd (snd (initialize_graphiti env m w))) \<and>
   sorted (delays_between w (snd (snd (initialize_graphiti env m w)))) \<and>
   list_all (\<lambda>d. d \<le> 10) (delays_between w (snd (snd (initialize_graphiti env m w))))"
proof -
  let ?wait = "wait_exponential 1 4 10"
  obtain k where sl: "sleeps (snd (snd (initialize_graphiti env m w))) =
                        sleeps w @ map ?wait [1..<1 + k]"
    using initialize_graphiti_delays by blast
  then have ds: "delays_between w (snd (snd (initialize_graphiti env m w))) = map ?wait [1..<1 + k]"
    by (simp add: delays_between_def)
  have "mono_on (set [1..<1 + k]) ?wait"
    by (intro mono_onI wait_exponential_mono) simp_all
  with sorted_upt have "sorted (map ?wait [1..<1 + k])"
    by (rule sorted_map_mono)
  moreover have "list_all (\<lambda>d. d \<le> 10) (map ?wait [1..<1 + k])"
    using wait_exponential_bounds [of 4 10 1] by (simp add: list_all_iff)
  ultimately show ?thesis using sl ds by simp
qed

text \<open>A run in which every attempt fails sleeps twice, four seconds each time.\<close>

lemma backoff_delays_example:
  "isl (fst (initialize_graphiti (mock_engine 3 False (Inr []) (Inr True)) manager0 world0)) \<and>
   delays_between world0
     (snd (snd (initialize_graphiti (mock_engine 3 False (Inr []) (Inr True)) manager0 world0)))
   = [4, 4]"
  by (simp add: initialize_graphiti_unfold model_defs mock_defs delays_between_def)

section \<open>The retry parameters and the settings\<close>

lemma body_with_retry_settings:
  "initialize_graphiti_body env (with_retry_settings r d m) w =
     (case initialize_graphiti_body env m w of
        (res, m1, w1) \<Rightarrow> (res, with_retry_settings r d m1, w1))"
  by (simp add: initialize_graphiti_body_def with_retry_settings_def Let_def
      split: option.splits prod.splits sum.splits)

lemma initialize_with_retry_settings:
  "initialize_graphiti env (with_retry_settings r d m) w =
     (case initialize_graphiti env m w of
        (res, m1, w1) \<Rightarrow> (res, with_retry_settings r d m1, w1))"
  by (simp add: initialize_graphiti_unfold body_with_retry_settings
      split: prod.splits sum.splits)

lemma body_ctor_calls:
  "ctor_calls (snd (snd (initialize_graphiti_body env m w))) \<le> Suc (ctor_calls w)"
  by (simp add: initialize_graphiti_body_def Graphiti_new_def build_indices_def
        logger_error_def logger_info_def Let_def split: option.splits prod.splits sum.splits)

lemma initialize_ctor_calls:
  "ctor_calls (snd (snd (initialize_graphiti env m w))) \<le> ctor_calls w + 3"
proof -
  have step: "initialize_graphiti_body env m0 w0 = (r0, m1, w1) \<Longrightarrow>
                ctor_calls w1 \<le> Suc (ctor_calls w0)" for m0 w0 r0 m1 w1
    using body_ctor_calls [of env m0 w0] by simp
  show ?thesis
    by (auto simp: initialize_graphiti_unfold split: prod.splits sum.splits dest!: step)
qed

text \<open>
  C10. The retry parameters are the decorator's constants. Giving the settings
  \<open>max_retries\<close> and \<open>retry_delay\<close> any other values changes neither the result of
  \<open>initialize_graphiti\<close> nor the world it leaves (the constructor calls made, the delays
  slept), and the manager it leaves differs in those two settings only. For every
  configuration a run makes at most three attempts (at most three constructor calls, at
  most two sleeps between attempts), and every delay is between 4 and 10 seconds.
\<close>

theorem retry_parameters_fixed:
  "fst (initialize_graphiti env (with_retry_settings r d m) w) =
     fst (initialize_graphiti env m w) \<and>
   fst (snd (initialize_graphiti env (with_retry_settings r d m) w)) =
     with_retry_settings r d (fst (snd (initialize_graphiti env m w))) \<and>
   snd (snd (initialize_graphiti env (with_retry_settings r d m) w)) =
     snd (snd (initialize_graphiti env m w)) \<and>
   ctor_calls (snd (snd (initialize_graphiti env m w))) \<le> ctor_calls w + 3 \<and>
   length (delays_between w (snd (snd (initialize_graphiti env m w)))) \<le> 2 \<and>
   list_all (\<lambda>d. 4 \<le> d \<and> d \<le> 10)
     (delays_between w (snd (snd (initialize_graphiti env m w))))"
proof -
  let ?wait = "wait_exponential 1 4 10"
  obtain k where k: "k \<le> 2" and sl: "sleeps (snd (snd (initialize_graphiti env m w))) =
                        sleeps w @ map ?wait [1..<1 + k]"
    using initialize_graphiti_delays by blast
  then have ds: "delays_between w (snd (snd (initialize_graphiti env m w))) = map ?wait [1..<1 + k]"
    by (simp add: delays_between_def)
  have "list_all (\<lambda>d. 4 \<le> d \<and> d \<le> 10) (map ?wait [1..<1 + k])"
    using wait_exponential_bounds [of 4 10 1] by (simp add: list_all_iff)
  then show ?thesis
    using k ds initialize_ctor_calls [of env m w]
    by (simp add: initialize_with_retry_settings split: prod.splits)
qed

section \<open>The retry bound\<close>

lemma body_ctor_raises:
  "graphiti m = None \<Longrightarrow> ctor_outcome env m (ctor_calls w) = Some e \<Longrightarrow>
   initialize_graphiti_body env m w =
     (Inl e, m, logger_error ''Failed to initialize Graphiti: '' e (w\<lparr>ctor_calls := Suc (ctor_calls w)\<rparr>))"
  by (simp add: initialize_graphiti_body_def Graphiti_new_def ctor_outcome_def Let_def)

lemma body_succeeds:
  "graphiti m = None \<Longrightarrow> ctor_outcome env m (ctor_calls w) = None \<Longrightarrow>
   build_indices_raises env (GraphitiObj (ctor_calls w)) (build_calls w) = None \<Longrightarrow>
   initialize_graphiti_body env m w =
     (Inr (GraphitiObj (ctor_calls w)), m\<lparr>graphiti := Some (GraphitiObj (ctor_calls w))\<rparr>,
      logger_info ''Graphiti initialized successfully with Gemini''
        (w\<lparr>ctor_calls := Suc (ctor_calls w), build_calls := Suc (build_calls w),
           indexed := insert (GraphitiObj (ctor_calls w)) (indexed w)\<rparr>))"
  by (simp add: initialize_graphiti_body_def Graphiti_new_def build_indices_def
        ctor_outcome_def Let_def)

text \<open>
  C4, as the code has it. The bound is the decorator's constant 3, whatever the setting
  \<open>max_retries\<close> holds. Starting with no stored handle: for every \<open>k < 3\<close>, if the
  constructor raises on the first \<open>k\<close> attempts and then the constructor and
  \<open>build_indices\<close> succeed, \<open>initialize_graphiti\<close> returns the new handle after exactly
  \<open>k + 1\<close> constructor calls; if the constructor raises on three attempts in a row,
  \<open>initialize_graphiti\<close> raises \<open>RetryError\<close> after exactly three constructor calls and
  the stored handle is still \<open>None\<close>.
\<close>

theorem retry_bound_three_attempts:
  assumes "graphiti m = None"
  shows "(k < 3 \<and> (\<forall>i<k. ctor_outcome env m (ctor_calls w + i) \<noteq> None) \<and>
          ctor_outcome env m (ctor_calls w + k) = None \<and>
          build_indices_raises env (GraphitiObj (ctor_calls w + k)) (build_calls w) = None
          \<longrightarrow> (\<exists>m' w'. initialize_graphiti env m w = (Inr (GraphitiObj (ctor_calls w + k)), m', w') \<and>
                 graphiti m' = Some (GraphitiObj (ctor_calls w + k)) \<and>
                 ctor_calls w' = ctor_calls w + k + 1)) \<and>
         ((\<forall>i<3. ctor_outcome env m (ctor_calls w + i) \<noteq> None)
          \<longrightarrow> (\<exists>e m' w'. initialize_graphiti env m w = (Inl (RetryError e), m', w') \<and>
                 graphiti m' = None \<and>
                 ctor_calls w' = ctor_calls w + 3))"
proof (intro conjI impI)
  assume h: "k < 3 \<and> (\<forall>i<k. ctor_outcome env m (ctor_calls w + i) \<noteq> None) \<and>
          ctor_outcome env m (ctor_calls w + k) = None \<and>
          build_indices_raises env (GraphitiObj (ctor_calls w + k)) (build_calls w) = None"
  then consider "k = 0" | "k = 1" | "k = 2" by linarith
  then show "\<exists>m' w'. initialize_graphiti env m w = (Inr (GraphitiObj (ctor_calls w + k)), m', w') \<and>
                 graphiti m' = Some (GraphitiObj (ctor_calls w + k)) \<and>
                 ctor_calls w' = ctor_calls w + k + 1"
  proof cases
    case 1
    with h assms show ?thesis
      by (simp add: initialize_graphiti_unfold body_succeeds logger_info_def)
  next
    case 2
    with h obtain e0 where "ctor_outcome env m (ctor_calls w) = Some e0" by fastforce
    with 2 h assms show ?thesis
      by (simp add: initialize_graphiti_unfold body_ctor_raises body_succeeds
            logger_info_def logger_error_def)
  next
    case 3
    from h have fails: "ctor_outcome env m (ctor_calls w + i) \<noteq> None" if "i < k" for i
      using that by blast
    from fails [of 0] fails [of 1] 3 have "ctor_outcome env m (ctor_calls w + 0) \<noteq> None"
      "ctor_outcome env m (ctor_calls w + 1) \<noteq> None" by simp_all
    then obtain e0 e1 where "ctor_outcome env m (ctor_calls w) = Some e0"
      "ctor_outcome env m (Suc (ctor_calls w)) = Some e1" by auto
    with 3 h assms show ?thesis
      by (simp add: initialize_graphiti_unfold body_ctor_raises body_succeeds
            logger_info_def logger_error_def)
  qed
next
  assume h: "\<forall>i<3. ctor_outcome env m (ctor_calls w + i) \<noteq> None"
  then have fails: "ctor_outcome env m (ctor_calls w + i) \<noteq> None" if "i < 3" for i
    using that by blast
  from fails [of 0] fails [of 1] fails [of 2]
  have "ctor_outcome env m (ctor_calls w + 0) \<noteq> None"
      "ctor_outcome env m (ctor_calls w + 1) \<noteq> None"
      "ctor_outcome env m (ctor_calls w + 2) \<noteq> None" by simp_all
  then obtain e0 e1 e2 where "ctor_outcome env m (ctor_calls w) = Some e0"
      "ctor_outcome env m (Suc (ctor_calls w)) = Some e1"
      "ctor_outcome env m (Suc (Suc (ctor_calls w))) = Some e2" by auto
  with assms show "\<exists>e m' w'. initialize_graphiti env m w = (Inl (RetryError e), m', w') \<and>
                 graphiti m' = None \<and> ctor_calls w' = ctor_calls w + 3"
    by (simp add: initialize_graphiti_unfold body_ctor_raises logger_error_def)
qed


theorem retry_bound_three_attempts_witness:
  "graphiti manager0 = None \<and>
   (\<exists>m' w'. initialize_graphiti (mock_engine 2 False (Inr []) (Inr True)) manager0 world0 =
              (Inr (GraphitiObj 2), m', w') \<and>
            graphiti m' = Some (GraphitiObj 2) \<and> ctor_calls w' = 3) \<and>
   (\<exists>e m' w'. initialize_graphiti (mock_engine 3 False (Inr []) (Inr True)) manager0 world0 =
              (Inl (RetryError e), m', w') \<and>
            graphiti m' = None \<and> ctor_calls w' = 3)"
proof -
  have uninit: "graphiti manager0 = None"
    by (simp add: manager0_def)
  have zero: "ctor_calls world0 = 0" "build_calls world0 = 0"
    by (simp_all add: world0_def)
  have fails2: "\<forall>i<2. ctor_outcome (mock_engine 2 False (Inr []) (Inr True)) manager0
                          (ctor_calls world0 + i) \<noteq> None"
    by (simp add: ctor_outcome_def mock_engine_def zero)
  have then_ok: "ctor_outcome (mock_engine 2 False (Inr []) (Inr True)) manager0
                   (ctor_calls world0 + 2) = None"
    "build_indices_raises (mock_engine 2 False (Inr []) (Inr True))
       (GraphitiObj (ctor_calls world0 + 2)) (build_calls world0) = None"
    by (simp_all add: ctor_outcome_def mock_engine_def zero)
  have fails3: "\<forall>i<3. ctor_outcome (mock_engine 3 False (Inr []) (Inr True)) manager0
                          (ctor_calls world0 + i) \<noteq> None"
    by (simp add: ctor_outcome_def mock_engine_def zero)
  have lt: "(2::nat) < 3" by simp
  from retry_bound_three_attempts [OF uninit, of 2 "mock_engine 2 False (Inr []) (Inr True)" world0]
    lt fails2 then_ok
  have "\<exists>m' w'. initialize_graphiti (mock_engine 2 False (Inr []) (Inr True)) manager0 world0 =
              (Inr (GraphitiObj (ctor_calls world0 + 2)), m', w') \<and>
            graphiti m' = Some (GraphitiObj (ctor_calls world0 + 2)) \<and>
            ctor_calls w' = ctor_calls world0 + 2 + 1"
    by blast
  then have a: "\<exists>m' w'. initialize_graphiti (mock_engine 2 False (Inr []) (Inr True)) manager0 world0 =
              (Inr (GraphitiObj 2), m', w') \<and>
            graphiti m' = Some (GraphitiObj 2) \<and> ctor_calls w' = 3"
    by (simp add: zero numeral_2_eq_2 numeral_3_eq_3)
  from retry_bound_three_attempts [OF uninit, of 0 "mock_engine 3 False (Inr []) (Inr True)" world0]
    fails3
  have "\<exists>e m' w'. initialize_graphiti (mock_engine 3 False (Inr []) (Inr True)) manager0 world0 =
              (Inl (RetryError e), m', w') \<and>
            graphiti m' = None \<and> ctor_calls w' = ctor_calls world0 + 3"
    by blast
  then have b: "\<exists>e m' w'. initialize_graphiti (mock_engine 3 False (Inr []) (Inr True)) manager0 world0 =
              (Inl (RetryError e), m', w') \<and>
            graphiti m' = None \<and> ctor_calls w' = 3"
    by (simp add: zero numeral_3_eq_3)
  from uninit a b show ?thesis by (intro conjI)
qed

text \<open>
  The claim as stated, with the configured maximum: \<open>max_retries\<close> is 5, the constructor
  raises on its first \<open>k = 3 < 5\<close> calls and would return on the fourth, yet
  \<open>initialize_graphiti\<close> raises after three constructor calls.
\<close>

theorem retry_bound_counterexample:
  "max_retries (settings (with_retry_settings 5 1 manager0)) = 5 \<and>
   graphiti (with_retry_settings 5 1 manager0) = None \<and>
   ctor_outcome (mock_engine 3 False (Inr []) (Inr True)) (with_retry_settings 5 1 manager0) 0 \<noteq> None \<and>
   ctor_outcome (mock_engine 3 False (Inr []) (Inr True)) (with_retry_settings 5 1 manager0) 1 \<noteq> None \<and>
   ctor_outcome (mock_engine 3 False (Inr []) (Inr True)) (with_retry_settings 5 1 manager0) 2 \<noteq> None \<and>
   ctor_outcome (mock_engine 3 False (Inr []) (Inr True)) (with_retry_settings 5 1 manager0) 3 = None \<and>
   build_indices_raises (mock_engine 3 False (Inr []) (Inr True)) (GraphitiObj 3) 0 = None \<and>
   fst (initialize_graphiti (mock_engine 3 False (Inr []) (Inr True))
          (with_retry_settings 5 1 manager0) world0) =
     Inl (RetryError (Exception ''connection refused'')) \<and>
   ctor_calls (snd (snd (initialize_graphiti (mock_engine 3 False (Inr []) (Inr True))
          (with_retry_settings 5 1 manager0) world0))) = 3"
  by (simp add: initialize_graphiti_unfold model_defs mock_defs with_retry_settings_def)

section \<open>Partially constructed handles\<close>

text \<open>
  C2 says that \<open>get_graphiti\<close> never returns a handle whose \<open>build_indices\<close> did not
  complete. The code at a concrete input: the constructor returns, \<open>build_indices\<close>
  raises. The first attempt has stored the new object before \<open>build_indices\<close> raised; the
  retry finds the attribute set and returns it. \<open>get_graphiti\<close> returns that handle, on
  which \<open>build_indices\<close> was called once and never completed, after logging the failure.
\<close>

theorem get_graphiti_returns_unindexed_handle:
  "build_indices_raises (mock_engine 0 True (Inr []) (Inr True)) (GraphitiObj 0) 0 =
     Some (Exception ''index build failed'') \<and>
   fst (get_graphiti (mock_engine 0 True (Inr []) (Inr True)) manager0 world0) =
     Inr (Some (GraphitiObj 0)) \<and>
   indexed (snd (snd (get_graphiti (mock_engine 0 True (Inr []) (Inr True)) manager0 world0))) = {} \<and>
   build_calls (snd (snd (get_graphiti (mock_engine 0 True (Inr []) (Inr True)) manager0 world0))) = 1 \<and>
   logs (snd (snd (get_graphiti (mock_engine 0 True (Inr []) (Inr True)) manager0 world0))) =
     [Error ''Failed to initialize Graphiti: '' (Exception ''index build failed'')]"
  by (simp add: get_graphiti_def initialize_graphiti_unfold model_defs mock_defs)

text \<open>
  C3 says that when every attempt fails, a \<open>build_indices\<close> failure included, the stored
  handle is \<open>None\<close> again once the retries are exhausted. The code at a concrete input:
  the constructor raises on the first two attempts and returns on the third, where
  \<open>build_indices\<close> raises. All three attempts have failed and \<open>initialize_graphiti\<close>
  raises \<open>RetryError\<close>, but the object built by the third attempt stays stored.
\<close>

theorem exhausted_retries_leave_handle:
  "fst (initialize_graphiti (mock_engine 2 True (Inr []) (Inr True)) manager0 world0) =
     Inl (RetryError (Exception ''index build failed'')) \<and>
   graphiti (fst (snd (initialize_graphiti (mock_engine 2 True (Inr []) (Inr True)) manager0 world0))) =
     Some (GraphitiObj 2) \<and>
   ctor_calls (snd (snd (initialize_graphiti (mock_engine 2 True (Inr []) (Inr True)) manager0 world0))) = 3 \<and>
   indexed (snd (snd (initialize_graphiti (mock_engine 2 True (Inr []) (Inr True)) manager0 world0))) = {}"
  by (simp add: initialize_graphiti_unfold model_defs mock_defs)

section \<open>The search endpoint\<close>

text \<open>
  C9 says that a search with \<open>limit = 10\<close> and no \<open>center_node_uuid\<close> whose handle returns
  three results answers with three entries, an entry being the string form of a result
  that has no \<open>to_dict\<close>. The code at a concrete input: the third of three results has no
  \<open>to_dict\<close>. The loop appends its string form, the response model refuses a string where
  it declares \<open>Dict[str, Any]\<close>, and the endpoint answers with status 500.
\<close>

theorem search_graph_string_result_fails:
  "limit request0 = 10 \<and> center_node_uuid request0 = None \<and>
   fst (search_graph
          (mock_engine 0 False
             (Inr [Result (Some (Inr (PyDict [(''uuid'', PyStr ''e1'')]))) ''edge e1'',
                   Result (Some (Inr (PyDict [(''uuid'', PyStr ''e2'')]))) ''edge e2'',
                   Result None ''edge e3''])
             (Inr True))
          settings0 request0 app0 world0) =
     Inl (HTTPException 500 ''Search failed: '' (ValidationError ''value is not a valid dict''))"
  by (simp add: search_graph_def get_manager_def GraphitiGeminiManager_init_def setup_gemini_def
        get_graphiti_def initialize_graphiti_unfold model_defs mock_defs search_failed_def
        SearchResponse_init_def validate_dict_def Let_def)

text \<open>When every result has a \<open>to_dict\<close> that returns a dict, the response carries these
  dicts in order, the number of results and the query as submitted.\<close>

lemma serialize_dicts:
  "map to_dict rs = map (\<lambda>d. Some (Inr (PyDict d))) ds \<Longrightarrow>
   serialize rs acc = Inr (acc @ map PyDict ds)"
proof (induction rs arbitrary: acc ds)
  case Nil
  then show ?case by simp
next
  case (Cons r rs)
  then obtain d ds' where ds: "ds = d # ds'" "to_dict r = Some (Inr (PyDict d))"
    "map to_dict rs = map (\<lambda>d. Some (Inr (PyDict d))) ds'"
    by (cases ds) auto
  with Cons.IH [of ds' "acc @ [PyDict d]"] show ?case by simp
qed

lemma validate_list_dicts: "validate_list (map PyDict ds) = Inr ds"
  by (induction ds) (simp_all add: validate_dict_def)

lemma search_graph_dict_results:
  assumes "graphiti_manager app = Some m" and "graphiti m = Some g"
    and "center_node_uuid req = None"
    and "search_outcome env g (query req) None (limit req) (search_calls w) = Inr rs"
    and "map to_dict rs = map (\<lambda>d. Some (Inr (PyDict d))) ds"
  shows "fst (search_graph env s req app w) =
           Inr \<lparr>results = ds, total_count = int (length rs), query_echo = query req\<rparr>"
  using assms
  by (simp add: search_graph_def get_manager_def get_ready search_on_def search_def
        serialize_dicts validate_list_dicts SearchResponse_init_def Let_def)

lemma search_graph_three_dicts_example:
  "fst (search_graph
          (mock_engine 0 False
             (Inr [Result (Some (Inr (PyDict [(''uuid'', PyStr ''e1'')]))) ''edge e1'',
                   Result (Some (Inr (PyDict [(''uuid'', PyStr ''e2'')]))) ''edge e2'',
                   Result (Some (Inr (PyDict [(''uuid'', PyStr ''e3'')]))) ''edge e3''])
             (Inr True))
          settings0 request0 app0 world0) =
     Inr \<lparr>results = [[(''uuid'', PyStr ''e1'')], [(''uuid'', PyStr ''e2'')], [(''uuid'', PyStr ''e3'')]],
          total_count = 3, query_echo = ''alice''\<rparr>"
  by (simp add: search_graph_def get_manager_def GraphitiGeminiManager_init_def setup_gemini_def
        get_graphiti_def initialize_graphiti_unfold model_defs mock_defs search_failed_def
        SearchResponse_init_def validate_dict_def Let_def)

end
